theory Spec2Isabelle
  imports
    Complex_Main
    "HOL-Library.Char_ord"
    "HOL-Library.List_Lexorder"
    "HOL-Library.Product_Lexorder"
    "HOL-Library.Sublist"
    "HOL-Library.Multiset"
begin

section \<open>Data model\<close>

text \<open>
  The dashboard script \<^verbatim>\<open>app.py\<close> loads one table, narrows it by five sidebar selectors and
  a date range, computes four KPIs and several grouped views.

  A calendar date is the triple (year, month, day); the order on triples is lexicographic,
  which is the chronological order. Sales and Profit are finite floating-point numbers in
  the source; every finite float is a rational number, and the model computes with exact
  rationals (no rounding). Quantity is an integer. Strings are compared as Python
  compares them, character by character.

  A row carries the ten columns of the loaded table and the three columns the script
  adds later (\<^verbatim>\<open>Year\<close>, \<^verbatim>\<open>Quarter\<close>, \<^verbatim>\<open>Margin Rate\<close>); an added column is \<open>None\<close>
  until the script writes it. Every cell of a loaded column holds a value, so the
  source's \<^verbatim>\<open>dropna()\<close> removes nothing.
\<close>

type_synonym date = "nat \<times> nat \<times> nat"

record row =
  Order_Date :: date
  Region :: string
  State :: string
  Category :: string
  Sub_Category :: string
  Segment :: string
  Product_Name :: string
  Sales :: rat
  Profit :: rat
  Quantity :: int
  Year :: "nat option"
  Quarter :: "string option"
  Margin_Rate :: "rat option"

type_synonym frame = "row list"

text \<open>
  DataFrames are objects: two variables can name the same one, and a column assignment
  changes the object for every variable that names it. The store holds the objects by
  address; a variable of the script is an address.
\<close>

type_synonym store = "frame list"

definition alloc :: "store \<Rightarrow> frame \<Rightarrow> store \<times> nat" where
  "alloc s f = (s @ [f], length s)"

text \<open>\<^verbatim>\<open>x.copy()\<close>: a new object with the same rows.\<close>

definition copy :: "store \<Rightarrow> nat \<Rightarrow> store \<times> nat" where
  "copy s a = alloc s (s ! a)"

datatype py_error = KeyError

datatype message = Sidebar_Error string | Warning string

datatype kpi = KSales | KQuantity | KProfit | KMargin_Rate

text \<open>What the user picks in the widgets of one run of the script.\<close>

record selection =
  selected_region :: string
  selected_state :: string
  selected_category :: string
  selected_subcat :: string
  selected_segment :: string
  from_date :: date
  to_date :: date
  selected_kpi :: kpi

section \<open>Sidebar: option lists and cascading filters (lines 24 to 99)\<close>

text \<open>\<^verbatim>\<open>Series.unique()\<close>: the distinct values in order of first appearance.\<close>

fun unique_from :: "'a list \<Rightarrow> 'a list \<Rightarrow> 'a list" where
  "unique_from seen [] = []"
| "unique_from seen (x # xs) =
     (if x \<in> set seen then unique_from seen xs else x # unique_from (x # seen) xs)"

definition unique :: "'a list \<Rightarrow> 'a list" where
  "unique xs = unique_from [] xs"

text \<open>\<^verbatim>\<open>options=["All"] + sorted(df[col].dropna().unique())\<close>\<close>

definition options :: "(row \<Rightarrow> string) \<Rightarrow> frame \<Rightarrow> string list" where
  "options col f = ''All'' # sort (unique (map col f))"

text \<open>
  \<^verbatim>\<open>if selected != "All": df_x = df_prev[df_prev[col] == selected] else: df_x = df_prev\<close>.
  Indexing with a boolean mask builds a new object; the \<^verbatim>\<open>else\<close> branch binds the new
  variable to the same object.
\<close>

definition narrow :: "(row \<Rightarrow> string) \<Rightarrow> string \<Rightarrow> store \<Rightarrow> nat \<Rightarrow> store \<times> nat" where
  "narrow col sel s a =
     (if sel \<noteq> ''All'' then alloc s (filter (\<lambda>r. col r = sel) (s ! a)) else (s, a))"

text \<open>\<^verbatim>\<open>Series.min()\<close> and \<^verbatim>\<open>Series.max()\<close>; of an empty column they are NaT, here \<open>None\<close>.\<close>

definition col_min :: "'a::linorder list \<Rightarrow> 'a option" where
  "col_min xs = (case xs of [] \<Rightarrow> None | x # ys \<Rightarrow> Some (fold min ys x))"

definition col_max :: "'a::linorder list \<Rightarrow> 'a option" where
  "col_max xs = (case xs of [] \<Rightarrow> None | x # ys \<Rightarrow> Some (fold max ys x))"

record sidebar_out =
  sb_heap :: store
  sb_df :: nat
  region_options :: "string list"
  state_options :: "string list"
  category_options :: "string list"
  subcat_options :: "string list"
  segment_options :: "string list"
  min_date :: "date option"
  max_date :: "date option"
  sb_messages :: "message list"

definition sidebar :: "selection \<Rightarrow> store \<Rightarrow> nat \<Rightarrow> sidebar_out" where
  "sidebar ui s0 df_original =
     (let all_regions = options Region (s0 ! df_original);
          (s1, df_filtered_region) = narrow Region (selected_region ui) s0 df_original;
          all_states = options State (s1 ! df_filtered_region);
          (s2, df_filtered_state) = narrow State (selected_state ui) s1 df_filtered_region;
          all_categories = options Category (s2 ! df_filtered_state);
          (s3, df_filtered_category) =
             narrow Category (selected_category ui) s2 df_filtered_state;
          all_subcats = options Sub_Category (s3 ! df_filtered_category);
          (s4, df) = copy s3 df_filtered_category;
          (s5, df) = narrow Sub_Category (selected_subcat ui) s4 df;
          all_segments = options Segment (s5 ! df);
          (s6, df) = copy s5 df;
          (s7, df) = narrow Segment (selected_segment ui) s6 df;
          dates = (if s7 ! df = [] then map Order_Date (s7 ! df_original)
                   else map Order_Date (s7 ! df));
          msgs = (if from_date ui > to_date ui
                  then [Sidebar_Error ''From Date must be earlier than To Date.'']
                  else []);
          (s8, df) = alloc s7 (filter (\<lambda>r. Order_Date r \<ge> from_date ui
                                          \<and> Order_Date r \<le> to_date ui) (s7 ! df))
      in \<lparr> sb_heap = s8, sb_df = df,
           region_options = all_regions, state_options = all_states,
           category_options = all_categories, subcat_options = all_subcats,
           segment_options = all_segments,
           min_date = col_min dates, max_date = col_max dates,
           sb_messages = msgs \<rparr>)"

section \<open>KPIs (lines 133 to 143)\<close>

record kpis =
  total_sales :: rat
  total_quantity :: int
  total_profit :: rat
  margin_rate :: rat

definition kpi_calc :: "frame \<Rightarrow> kpis" where
  "kpi_calc df =
     (if df = [] then
        \<lparr> total_sales = 0, total_quantity = 0, total_profit = 0, margin_rate = 0 \<rparr>
      else
        (let ts = sum_list (map Sales df);
             tq = sum_list (map Quantity df);
             tp = sum_list (map Profit df)
         in \<lparr> total_sales = ts, total_quantity = tq, total_profit = tp,
              margin_rate = (if ts \<noteq> 0 then tp / ts else 0) \<rparr>))"

section \<open>Grouping and aggregation (lines 198 to 266 and 380 to 385)\<close>

text \<open>
  \<^verbatim>\<open>df.groupby(key)\<close> collects the rows of each key, the groups in ascending key order
  and the rows of a group in their order in the frame. A key that reads a column the
  frame does not have raises \<^verbatim>\<open>KeyError\<close>.
\<close>

fun add_to_group :: "'k::linorder \<Rightarrow> row \<Rightarrow> ('k \<times> row list) list \<Rightarrow> ('k \<times> row list) list" where
  "add_to_group k r [] = [(k, [r])]"
| "add_to_group k r ((k', g) # gs) =
     (if k = k' then (k', g @ [r]) # gs
      else if k < k' then (k, [r]) # (k', g) # gs
      else (k', g) # add_to_group k r gs)"

fun groupby_from ::
  "(row \<Rightarrow> 'k::linorder option) \<Rightarrow> ('k \<times> row list) list \<Rightarrow> frame \<Rightarrow> py_error + ('k \<times> row list) list" where
  "groupby_from key gs [] = Inr gs"
| "groupby_from key gs (r # rs) =
     (case key r of
        None \<Rightarrow> Inl KeyError
      | Some k \<Rightarrow> groupby_from key (add_to_group k r gs) rs)"

definition groupby :: "(row \<Rightarrow> 'k::linorder option) \<Rightarrow> frame \<Rightarrow> py_error + ('k \<times> row list) list" where
  "groupby key df = groupby_from key [] df"

record group_sums =
  s_Sales :: rat
  s_Quantity :: int
  s_Profit :: rat

record metrics =
  m_Sales :: rat
  m_Quantity :: int
  m_Profit :: rat
  m_Margin_Rate :: rat

text \<open>\<^verbatim>\<open>.agg({"Sales": "sum", "Quantity": "sum", "Profit": "sum"}).reset_index()\<close>\<close>

definition agg_sum :: "('k \<times> row list) list \<Rightarrow> ('k \<times> group_sums) list" where
  "agg_sum gs =
     map (\<lambda>(k, g). (k, \<lparr> s_Sales = sum_list (map Sales g),
                           s_Quantity = sum_list (map Quantity g),
                           s_Profit = sum_list (map Profit g) \<rparr>)) gs"

text \<open>\<^verbatim>\<open>Series.replace(0, 1)\<close>, cell by cell.\<close>

definition replace_0_1 :: "rat \<Rightarrow> rat" where
  "replace_0_1 x = (if x = 0 then 1 else x)"

text \<open>\<^verbatim>\<open>v["Margin Rate"] = v["Profit"] / v["Sales"].replace(0, 1)\<close> on a grouped view.\<close>

definition add_margin :: "('k \<times> group_sums) list \<Rightarrow> ('k \<times> metrics) list" where
  "add_margin v =
     map (\<lambda>(k, a). (k, \<lparr> m_Sales = s_Sales a, m_Quantity = s_Quantity a,
                           m_Profit = s_Profit a,
                           m_Margin_Rate = s_Profit a / replace_0_1 (s_Sales a) \<rparr>)) v"

text \<open>Reading an added column of a frame: \<^verbatim>\<open>KeyError\<close> when it was never written.\<close>

fun col_values :: "(row \<Rightarrow> 'a option) \<Rightarrow> frame \<Rightarrow> py_error + 'a list" where
  "col_values c [] = Inr []"
| "col_values c (r # rs) =
     (case c r of
        None \<Rightarrow> Inl KeyError
      | Some v \<Rightarrow> (case col_values c rs of Inl e \<Rightarrow> Inl e | Inr vs \<Rightarrow> Inr (v # vs)))"

text \<open>
  \<^verbatim>\<open>.agg({"Sales": "sum", "Profit": "sum", "Quantity": "sum", "Margin Rate": "sum"})\<close>:
  here the Margin Rate of a group is the sum of the \<^verbatim>\<open>Margin Rate\<close> cells of its rows.
\<close>

fun agg_sum_margin :: "('k \<times> row list) list \<Rightarrow> py_error + ('k \<times> metrics) list" where
  "agg_sum_margin [] = Inr []"
| "agg_sum_margin ((k, g) # gs) =
     (case col_values Margin_Rate g of
        Inl e \<Rightarrow> Inl e
      | Inr ms \<Rightarrow>
          (case agg_sum_margin gs of
             Inl e \<Rightarrow> Inl e
           | Inr v \<Rightarrow> Inr ((k, \<lparr> m_Sales = sum_list (map Sales g),
                                   m_Quantity = sum_list (map Quantity g),
                                   m_Profit = sum_list (map Profit g),
                                   m_Margin_Rate = sum_list ms \<rparr>) # v)))"

text \<open>The column of a view that the selected KPI names.\<close>

fun metric :: "kpi \<Rightarrow> metrics \<Rightarrow> rat" where
  "metric KSales m = m_Sales m"
| "metric KQuantity m = of_int (m_Quantity m)"
| "metric KProfit m = m_Profit m"
| "metric KMargin_Rate m = m_Margin_Rate m"

section \<open>Derived columns\<close>

text \<open>\<^verbatim>\<open>str\<close> of a natural number.\<close>

fun str_nat :: "nat \<Rightarrow> string" where
  "str_nat n =
     (if n < 10 then [''0123456789'' ! n]
      else str_nat (n div 10) @ [''0123456789'' ! (n mod 10)])"

declare str_nat.simps [simp del]

text \<open>\<^verbatim>\<open>dt.year\<close> and \<^verbatim>\<open>dt.to_period('Q').astype(str)\<close>, as in \<^verbatim>\<open>2016Q1\<close>.\<close>

definition year_of :: "date \<Rightarrow> nat" where
  "year_of d = fst d"

definition quarter_label :: "date \<Rightarrow> string" where
  "quarter_label d = str_nat (fst d) @ ''Q'' @ str_nat ((fst (snd d) - 1) div 3 + 1)"

text \<open>
  \<^verbatim>\<open>lambda x: us.states.lookup(x).abbr if us.states.lookup(x) else x\<close>. The table of the
  \<^verbatim>\<open>us\<close> package is not part of the repository: \<open>lookup\<close> is a parameter, giving the
  abbreviation of the state it finds.
\<close>

definition state_abbr :: "(string \<Rightarrow> string option) \<Rightarrow> string \<Rightarrow> string" where
  "state_abbr lookup x = (case lookup x of Some a \<Rightarrow> a | None \<Rightarrow> x)"

text \<open>\<^verbatim>\<open>df[col] = ...\<close>: the object at the address changes, for every variable naming it.\<close>

definition assign :: "store \<Rightarrow> nat \<Rightarrow> (row \<Rightarrow> row) \<Rightarrow> store" where
  "assign s a f = s[a := map f (s ! a)]"

definition bind_err :: "'e + 'a \<Rightarrow> ('a \<Rightarrow> 'e + 'b) \<Rightarrow> 'e + 'b" where
  "bind_err m f = (case m of Inl e \<Rightarrow> Inl e | Inr x \<Rightarrow> f x)"

section \<open>Charts data (lines 193 to 385)\<close>

text \<open>
  The grouped views that the charts show. The pivot of \<^verbatim>\<open>quarterly_data\<close> and the regrouping
  of \<^verbatim>\<open>quarterly_grouped\<close> by its own key only lay the same numbers out for a plot, and the
  plotting calls themselves are outside the model.
\<close>

record views =
  daily_grouped :: "(date \<times> metrics) list"
  product_grouped :: "(string \<times> metrics) list"
  top_10 :: "(string \<times> metrics) list"
  year_segment_grouped :: "((nat \<times> string) \<times> metrics) list"
  state_grouped :: "(string \<times> metrics) list"
  quarterly_grouped :: "(string \<times> metrics) list"
  quarterly_data :: "((string \<times> string) \<times> metrics) list"
  df_grouped_new :: "((string \<times> string) \<times> metrics) list"

text \<open>
  \<^verbatim>\<open>product_grouped.sort_values(by=selected_kpi, ascending=False, inplace=True)\<close> calls
  pandas with its default sorting kind, \<^verbatim>\<open>quicksort\<close>, which the library documents as not
  stable. The sorting routine is not part of the repository: it is the parameter
  \<open>sort_values\<close>, and \<open>sorts_descending\<close> is what the library promises of it.
\<close>

type_synonym sorter = "kpi \<Rightarrow> (string \<times> metrics) list \<Rightarrow> (string \<times> metrics) list"

definition sorts_descending :: "sorter \<Rightarrow> bool" where
  "sorts_descending srt =
     (\<forall>by v. mset (srt by v) = mset v
            \<and> sorted_wrt (\<lambda>a b. metric by (snd a) \<ge> metric by (snd b)) (srt by v))"

text \<open>
  The column assignments of lines 221, 231, 243, 244 and 288, on one row:
  \<^verbatim>\<open>df['Year'] = df['Order Date'].dt.year\<close>,
  \<^verbatim>\<open>df["State"] = df["State"].apply(...)\<close>,
  \<^verbatim>\<open>df['Order Date'] = pd.to_datetime(df['Order Date'])\<close> (the column holds dates already),
  \<^verbatim>\<open>df['Quarter'] = df['Order Date'].dt.to_period('Q').astype(str)\<close> and
  \<^verbatim>\<open>df["Margin Rate"] = df["Profit"]/df["Sales"].replace(0, 1)\<close>.
\<close>

definition with_Year :: "row \<Rightarrow> row" where
  "with_Year r = r\<lparr>Year := Some (year_of (Order_Date r))\<rparr>"

definition with_State :: "(string \<Rightarrow> string option) \<Rightarrow> row \<Rightarrow> row" where
  "with_State lookup r = r\<lparr>State := state_abbr lookup (State r)\<rparr>"

definition with_Order_Date :: "row \<Rightarrow> row" where
  "with_Order_Date r = r\<lparr>Order_Date := Order_Date r\<rparr>"

definition with_Quarter :: "row \<Rightarrow> row" where
  "with_Quarter r = r\<lparr>Quarter := Some (quarter_label (Order_Date r))\<rparr>"

definition with_Margin_Rate :: "row \<Rightarrow> row" where
  "with_Margin_Rate r = r\<lparr>Margin_Rate := Some (Profit r / replace_0_1 (Sales r))\<rparr>"

definition charts ::
  "sorter \<Rightarrow> (string \<Rightarrow> string option) \<Rightarrow> kpi \<Rightarrow> store \<Rightarrow> nat \<Rightarrow> py_error + (store \<times> views)" where
  "charts sort_values lookup by s0 df =
     bind_err (groupby (\<lambda>r. Some (Order_Date r)) (s0 ! df)) (\<lambda>g1.
     bind_err (groupby (\<lambda>r. Some (Product_Name r)) (s0 ! df)) (\<lambda>g2.
     let daily = add_margin (agg_sum g1);
         product = sort_values by (add_margin (agg_sum g2));
         top = take 10 product;
         s1 = assign s0 df with_Year
     in
     bind_err (groupby (\<lambda>r. map_option (\<lambda>y. (y, Segment r)) (Year r)) (s1 ! df)) (\<lambda>g3.
     let s2 = assign s1 df (with_State lookup) in
     bind_err (groupby (\<lambda>r. Some (State r)) (s2 ! df)) (\<lambda>g4.
     let s3 = assign s2 df with_Order_Date;
         s4 = assign s3 df with_Quarter
     in
     bind_err (groupby Quarter (s4 ! df)) (\<lambda>g5.
     bind_err (groupby (\<lambda>r. map_option (\<lambda>q. (q, Category r)) (Quarter r)) (s4 ! df)) (\<lambda>g6.
     let s5 = assign s4 df with_Margin_Rate in
     bind_err (groupby (\<lambda>r. map_option (\<lambda>q. (Category r, q)) (Quarter r)) (s5 ! df)) (\<lambda>g7.
     bind_err (agg_sum_margin g7) (\<lambda>grouped_new.
     Inr (s5, \<lparr> daily_grouped = daily,
                product_grouped = product,
                top_10 = top,
                year_segment_grouped = add_margin (agg_sum g3),
                state_grouped = add_margin (agg_sum g4),
                quarterly_grouped = add_margin (agg_sum g5),
                quarterly_data = add_margin (agg_sum g6),
                df_grouped_new = grouped_new \<rparr>)))))))))"

section \<open>The script\<close>

record dashboard =
  heap :: store
  side :: sidebar_out
  kpi_tiles :: kpis
  messages :: "message list"
  chart_data :: "views option"

text \<open>
  One run of the script on the loaded table: the table is the object at address 0
  (\<^verbatim>\<open>df_original\<close>). With no row left, the script shows a warning and computes no view.
\<close>

definition run ::
  "sorter \<Rightarrow> (string \<Rightarrow> string option) \<Rightarrow> selection \<Rightarrow> frame \<Rightarrow> py_error + dashboard" where
  "run sort_values lookup ui loaded =
     (let sb = sidebar ui [loaded] 0;
          s = sb_heap sb;
          df = sb_df sb;
          k = kpi_calc (s ! df)
      in if s ! df = [] then
           Inr \<lparr> heap = s, side = sb, kpi_tiles = k,
                 messages = sb_messages sb
                   @ [Warning ''No data available for the selected filters and date range.''],
                 chart_data = None \<rparr>
         else
           bind_err (charts sort_values lookup (selected_kpi ui) s df) (\<lambda>(s', v).
           Inr \<lparr> heap = s', side = sb, kpi_tiles = k,
                 messages = sb_messages sb, chart_data = Some v \<rparr>))"

section \<open>Concrete tables and sorting routines\<close>

text \<open>A row as \<^verbatim>\<open>load_data\<close> reads it: the ten columns of the file, no added column.\<close>

definition loaded_row ::
  "date \<Rightarrow> string \<Rightarrow> string \<Rightarrow> string \<Rightarrow> string \<Rightarrow> string \<Rightarrow> string \<Rightarrow> rat \<Rightarrow> rat \<Rightarrow> int \<Rightarrow> row" where
  "loaded_row d reg st cat sub seg pname s p q =
     \<lparr> Order_Date = d, Region = reg, State = st, Category = cat, Sub_Category = sub,
       Segment = seg, Product_Name = pname, Sales = s, Profit = p, Quantity = q,
       Year = None, Quarter = None, Margin_Rate = None \<rparr>"


definition ties_reversed :: sorter where
  "ties_reversed by v = rev (sort_key (\<lambda>x. metric by (snd x)) v)"

text \<open>A lookup that knows two states.\<close>

definition two_states :: "string \<Rightarrow> string option" where
  "two_states x =
     (if x = ''New York'' then Some ''NY''
      else if x = ''California'' then Some ''CA'' else None)"

text \<open>A selection that keeps every row dated 2016 or 2017.\<close>

definition pick_all :: selection where
  "pick_all =
     \<lparr> selected_region = ''All'', selected_state = ''All'', selected_category = ''All'',
       selected_subcat = ''All'', selected_segment = ''All'',
       from_date = (2016, 1, 1), to_date = (2017, 12, 31), selected_kpi = KSales \<rparr>"

section \<open>Auxiliary definitions for the statements\<close>

text \<open>One selector, as a function on rows: \<^verbatim>\<open>All\<close> keeps every row.\<close>

definition stage :: "(row \<Rightarrow> string) \<Rightarrow> string \<Rightarrow> frame \<Rightarrow> frame" where
  "stage col sel f = (if sel \<noteq> ''All'' then filter (\<lambda>r. col r = sel) f else f)"

text \<open>The date predicate of lines 96 to 99.\<close>

definition in_range :: "selection \<Rightarrow> row \<Rightarrow> bool" where
  "in_range ui = (\<lambda>r. from_date ui \<le> Order_Date r \<and> Order_Date r \<le> to_date ui)"

text \<open>The rows the five selectors keep, applied in the order of the script.\<close>

definition narrowed :: "selection \<Rightarrow> frame \<Rightarrow> frame" where
  "narrowed ui loaded =
     stage Segment (selected_segment ui)
       (stage Sub_Category (selected_subcat ui)
         (stage Category (selected_category ui)
           (stage State (selected_state ui)
             (stage Region (selected_region ui) loaded))))"

text \<open>The frame \<^verbatim>\<open>df\<close> after line 99, on a run that starts with the loaded table alone.\<close>

definition filtered :: "selection \<Rightarrow> frame \<Rightarrow> frame" where
  "filtered ui loaded = sb_heap (sidebar ui [loaded] 0) ! sb_df (sidebar ui [loaded] 0)"

text \<open>Grouping by a key that every row has.\<close>

definition groups :: "(row \<Rightarrow> 'k::linorder) \<Rightarrow> frame \<Rightarrow> ('k \<times> row list) list" where
  "groups k f = fold (\<lambda>r. add_to_group (k r) r) f []"


text \<open>The six predicates of a selection, each on its own.\<close>

definition predicates :: "selection \<Rightarrow> (row \<Rightarrow> bool) list" where
  "predicates ui =
     [ \<lambda>r. selected_region ui = ''All'' \<or> Region r = selected_region ui,
       \<lambda>r. selected_state ui = ''All'' \<or> State r = selected_state ui,
       \<lambda>r. selected_category ui = ''All'' \<or> Category r = selected_category ui,
       \<lambda>r. selected_subcat ui = ''All'' \<or> Sub_Category r = selected_subcat ui,
       \<lambda>r. selected_segment ui = ''All'' \<or> Segment r = selected_segment ui,
       in_range ui ]"

text \<open>The two-row table of the spec's scenario, and the selection of its East region.\<close>

definition table2 :: frame where
  "table2 =
     [ loaded_row (2016, 1, 5) ''East'' ''New York'' ''Furniture'' ''Chairs'' ''Consumer''
         ''Chair A'' 100 20 2,
       loaded_row (2016, 2, 9) ''West'' ''California'' ''Furniture'' ''Tables'' ''Corporate''
         ''Table B'' 50 (-10) 1 ]"

definition pick_east :: selection where
  "pick_east = pick_all\<lparr>selected_region := ''East''\<rparr>"

text \<open>The frame \<^verbatim>\<open>df\<close> after each assignment of the charts part.\<close>

definition frame1 :: "frame \<Rightarrow> frame" where
  "frame1 f = map with_Year f"

definition frame2 :: "(string \<Rightarrow> string option) \<Rightarrow> frame \<Rightarrow> frame" where
  "frame2 lookup f = map (with_State lookup) (frame1 f)"

definition frame4 :: "(string \<Rightarrow> string option) \<Rightarrow> frame \<Rightarrow> frame" where
  "frame4 lookup f = map with_Quarter (map with_Order_Date (frame2 lookup f))"

definition frame5 :: "(string \<Rightarrow> string option) \<Rightarrow> frame \<Rightarrow> frame" where
  "frame5 lookup f = map with_Margin_Rate (frame4 lookup f)"

text \<open>The row of a view whose Margin Rate sums the margin rates of the rows of its group.\<close>

definition summed_margins :: "row list \<Rightarrow> metrics" where
  "summed_margins g =
     \<lparr> m_Sales = sum_list (map Sales g), m_Quantity = sum_list (map Quantity g),
       m_Profit = sum_list (map Profit g),
       m_Margin_Rate = sum_list (map (\<lambda>r. Profit r / replace_0_1 (Sales r)) g) \<rparr>"

text \<open>The views of the charts part, as functions of the frame it starts from.\<close>

definition views_of :: "sorter \<Rightarrow> (string \<Rightarrow> string option) \<Rightarrow> kpi \<Rightarrow> frame \<Rightarrow> views" where
  "views_of sv lk by f =
     \<lparr> daily_grouped = add_margin (agg_sum (groups Order_Date f)),
       product_grouped = sv by (add_margin (agg_sum (groups Product_Name f))),
       top_10 = take 10 (sv by (add_margin (agg_sum (groups Product_Name f)))),
       year_segment_grouped = add_margin (agg_sum
          (groups (\<lambda>r. (year_of (Order_Date r), Segment r)) (frame1 f))),
       state_grouped = add_margin (agg_sum (groups State (frame2 lk f))),
       quarterly_grouped = add_margin (agg_sum
          (groups (\<lambda>r. quarter_label (Order_Date r)) (frame4 lk f))),
       quarterly_data = add_margin (agg_sum
          (groups (\<lambda>r. (quarter_label (Order_Date r), Category r)) (frame4 lk f))),
       df_grouped_new = map (\<lambda>(k, g). (k, summed_margins g))
          (groups (\<lambda>r. (Category r, quarter_label (Order_Date r))) (frame5 lk f)) \<rparr>"

text \<open>The four tiles when no row is left.\<close>

definition zero_kpis :: kpis where
  "zero_kpis = \<lparr> total_sales = 0, total_quantity = 0, total_profit = 0, margin_rate = 0 \<rparr>"


definition pick_inverted :: selection where
  "pick_inverted = pick_all\<lparr>from_date := (2017, 1, 1), to_date := (2016, 1, 1)\<rparr>"


text \<open>
  The margin rate as the spec words it (section 4.4):
  \<^verbatim>\<open>profit / (sales if sales != 0 else 1)\<close>.
\<close>

definition spec_marginRate :: "rat \<Rightarrow> rat \<Rightarrow> rat" where
  "spec_marginRate sales profit = profit / (if sales \<noteq> 0 then sales else 1)"

text \<open>A table of one row with no Sales and some Profit.\<close>

definition free_sample :: frame where
  "free_sample =
     [ loaded_row (2016, 1, 5) ''East'' ''New York'' ''Furniture'' ''Chairs'' ''Consumer''
         ''Chair A'' 0 5 1 ]"

text \<open>A row after all the column assignments of the charts part.\<close>

definition written :: "(string \<Rightarrow> string option) \<Rightarrow> row \<Rightarrow> row" where
  "written lk r = with_Margin_Rate (with_Quarter (with_Order_Date (with_State lk (with_Year r))))"

text \<open>The key of the view \<^verbatim>\<open>df_grouped_new\<close>.\<close>

definition category_quarter :: "row \<Rightarrow> string \<times> string" where
  "category_quarter r = (Category r, quarter_label (Order_Date r))"


section \<open>Properties\<close>

lemma set_unique_from: "set (unique_from seen xs) = set xs - set seen"
  by (induction xs arbitrary: seen) auto

lemma distinct_unique_from: "distinct (unique_from seen xs)"
  by (induction xs arbitrary: seen) (auto simp: set_unique_from)

lemma set_unique: "set (unique xs) = set xs"
  by (simp add: unique_def set_unique_from)

lemma distinct_unique: "distinct (unique xs)"
  by (simp add: unique_def distinct_unique_from)

lemma sort_unique: "sort (unique xs) = sorted_list_of_set (set xs)"
proof -
  have "sorted_list_of_set (set (unique xs)) = sort (unique xs)"
    using distinct_unique[of xs]
    by (simp add: sorted_list_of_set_sort_remdups distinct_remdups_id)
  then show ?thesis by (simp add: set_unique)
qed

lemma alloc_step:
  assumes "alloc s f = (s', a')" "a < length s"
  shows "a' < length s' \<and> 0 < a' \<and> s' ! a' = f \<and> s' ! 0 = s ! 0"
  using assms by (auto simp: alloc_def nth_append)

lemma copy_step:
  assumes "copy s a = (s', a')" "a < length s"
  shows "a' < length s' \<and> 0 < a' \<and> s' ! a' = s ! a \<and> s' ! 0 = s ! 0"
  using assms by (auto simp: copy_def alloc_def nth_append)

lemma narrow_step:
  assumes "narrow col sel s a = (s', a')" "a < length s"
  shows "a' < length s' \<and> (0 < a \<longrightarrow> 0 < a') \<and> s' ! a' = stage col sel (s ! a)
         \<and> s' ! 0 = s ! 0"
  using assms by (auto simp: narrow_def alloc_def stage_def nth_append split: if_splits)

lemma sidebar_explicit:
  "\<exists>s a. sidebar ui [loaded] 0 =
      \<lparr> sb_heap = s, sb_df = a,
        region_options = options Region loaded,
        state_options = options State (stage Region (selected_region ui) loaded),
        category_options = options Category
          (stage State (selected_state ui) (stage Region (selected_region ui) loaded)),
        subcat_options = options Sub_Category
          (stage Category (selected_category ui)
            (stage State (selected_state ui) (stage Region (selected_region ui) loaded))),
        segment_options = options Segment
          (stage Sub_Category (selected_subcat ui)
            (stage Category (selected_category ui)
              (stage State (selected_state ui) (stage Region (selected_region ui) loaded)))),
        min_date = col_min (if narrowed ui loaded = [] then map Order_Date loaded
                            else map Order_Date (narrowed ui loaded)),
        max_date = col_max (if narrowed ui loaded = [] then map Order_Date loaded
                            else map Order_Date (narrowed ui loaded)),
        sb_messages = (if to_date ui < from_date ui
                       then [Sidebar_Error ''From Date must be earlier than To Date.'']
                       else []) \<rparr>
    \<and> s ! 0 = loaded \<and> 0 < a \<and> a < length s
    \<and> s ! a = filter (in_range ui) (narrowed ui loaded)"
proof -
  obtain s1 a1 where n1: "narrow Region (selected_region ui) [loaded] 0 = (s1, a1)"
    by fastforce
  have p1: "a1 < length s1" "s1 ! a1 = stage Region (selected_region ui) loaded"
    "s1 ! 0 = loaded"
    using narrow_step[OF n1] by simp_all
  obtain s2 a2 where n2: "narrow State (selected_state ui) s1 a1 = (s2, a2)"
    by fastforce
  have p2: "a2 < length s2"
    "s2 ! a2 = stage State (selected_state ui) (stage Region (selected_region ui) loaded)"
    "s2 ! 0 = loaded"
    using narrow_step[OF n2 p1(1)] p1 by simp_all
  obtain s3 a3 where n3: "narrow Category (selected_category ui) s2 a2 = (s3, a3)"
    by fastforce
  have p3: "a3 < length s3"
    "s3 ! a3 = stage Category (selected_category ui)
       (stage State (selected_state ui) (stage Region (selected_region ui) loaded))"
    "s3 ! 0 = loaded"
    using narrow_step[OF n3 p2(1)] p2 by simp_all
  obtain s4 a4 where n4: "copy s3 a3 = (s4, a4)"
    by fastforce
  have p4: "a4 < length s4" "0 < a4" "s4 ! a4 = s3 ! a3" "s4 ! 0 = loaded"
    using copy_step[OF n4 p3(1)] p3 by auto
  obtain s5 a5 where n5: "narrow Sub_Category (selected_subcat ui) s4 a4 = (s5, a5)"
    by fastforce
  have p5: "a5 < length s5" "0 < a5"
    "s5 ! a5 = stage Sub_Category (selected_subcat ui) (s3 ! a3)" "s5 ! 0 = loaded"
    using narrow_step[OF n5 p4(1)] p4 by simp_all
  obtain s6 a6 where n6: "copy s5 a5 = (s6, a6)"
    by fastforce
  have p6: "a6 < length s6" "0 < a6" "s6 ! a6 = s5 ! a5" "s6 ! 0 = loaded"
    using copy_step[OF n6 p5(1)] p5 by auto
  obtain s7 a7 where n7: "narrow Segment (selected_segment ui) s6 a6 = (s7, a7)"
    by fastforce
  have p7: "a7 < length s7" "0 < a7" "s7 ! a7 = narrowed ui loaded" "s7 ! 0 = loaded"
    using narrow_step[OF n7 p6(1)] p6 p5 p3 by (simp_all add: narrowed_def)
  obtain s8 a8 where n8:
    "alloc s7 (filter (\<lambda>r. from_date ui \<le> Order_Date r \<and> Order_Date r \<le> to_date ui)
        (s7 ! a7)) = (s8, a8)"
    by fastforce
  have p8: "a8 < length s8" "0 < a8" "s8 ! a8 = filter (in_range ui) (narrowed ui loaded)"
    "s8 ! 0 = loaded"
    using alloc_step[OF n8 p7(1)] p7 by (auto simp: in_range_def)
  have "sidebar ui [loaded] 0 =
      \<lparr> sb_heap = s8, sb_df = a8,
        region_options = options Region loaded,
        state_options = options State (s1 ! a1),
        category_options = options Category (s2 ! a2),
        subcat_options = options Sub_Category (s3 ! a3),
        segment_options = options Segment (s5 ! a5),
        min_date = col_min (if s7 ! a7 = [] then map Order_Date (s7 ! 0)
                            else map Order_Date (s7 ! a7)),
        max_date = col_max (if s7 ! a7 = [] then map Order_Date (s7 ! 0)
                            else map Order_Date (s7 ! a7)),
        sb_messages = (if to_date ui < from_date ui
                       then [Sidebar_Error ''From Date must be earlier than To Date.'']
                       else []) \<rparr>"
    by (simp add: sidebar_def n1 n2 n3 n4 n5 n6 n7 n8 Let_def)
  then show ?thesis
    using p1 p2 p3 p5 p7 p8 by auto
qed

lemma sidebar_df: "filtered ui loaded = filter (in_range ui) (narrowed ui loaded)"
  using sidebar_explicit[of ui loaded] by (auto simp: filtered_def)

lemma sidebar_original:
  "sb_heap (sidebar ui [loaded] 0) ! 0 = loaded \<and> 0 < sb_df (sidebar ui [loaded] 0)
   \<and> sb_df (sidebar ui [loaded] 0) < length (sb_heap (sidebar ui [loaded] 0))"
  using sidebar_explicit[of ui loaded] by auto

lemma sidebar_options:
  "region_options (sidebar ui [loaded] 0) = options Region loaded"
  "state_options (sidebar ui [loaded] 0) = options State (stage Region (selected_region ui) loaded)"
  "category_options (sidebar ui [loaded] 0) =
     options Category (stage State (selected_state ui) (stage Region (selected_region ui) loaded))"
  "subcat_options (sidebar ui [loaded] 0) =
     options Sub_Category (stage Category (selected_category ui)
       (stage State (selected_state ui) (stage Region (selected_region ui) loaded)))"
  "segment_options (sidebar ui [loaded] 0) =
     options Segment (stage Sub_Category (selected_subcat ui) (stage Category (selected_category ui)
       (stage State (selected_state ui) (stage Region (selected_region ui) loaded))))"
  using sidebar_explicit[of ui loaded] by auto

lemma sidebar_messages:
  "sb_messages (sidebar ui [loaded] 0) =
     (if to_date ui < from_date ui
      then [Sidebar_Error ''From Date must be earlier than To Date.''] else [])"
  using sidebar_explicit[of ui loaded] by auto

lemma groupby_from_total:
  "(\<And>r. r \<in> set f \<Longrightarrow> key r = Some (k r)) \<Longrightarrow>
     groupby_from key gs f = Inr (fold (\<lambda>r. add_to_group (k r) r) f gs)"
  by (induction f arbitrary: gs) auto

lemma groupby_total:
  "(\<And>r. r \<in> set f \<Longrightarrow> key r = Some (k r)) \<Longrightarrow> groupby key f = Inr (groups k f)"
  by (simp add: groupby_def groups_def groupby_from_total)






text \<open>Keys of the groups.\<close>

lemma keys_add: "fst ` set (add_to_group k r gs) = insert k (fst ` set gs)"
  by (induction k r gs rule: add_to_group.induct) auto

lemma sorted_add:
  "sorted_wrt (<) (map fst gs) \<Longrightarrow> sorted_wrt (<) (map fst (add_to_group k r gs))"
proof (induction k r gs rule: add_to_group.induct)
  case (1 k r)
  then show ?case by simp
next
  case (2 k r k' g gs)
  show ?case
  proof (cases "k = k'")
    case True
    with 2 show ?thesis by simp
  next
    case False
    show ?thesis
    proof (cases "k < k'")
      case True
      with 2(2) False show ?thesis by auto
    next
      case nl: False
      with False have "k' < k" by simp
      moreover have "sorted_wrt (<) (map fst (add_to_group k r gs))"
        using 2 False nl by simp
      moreover have "\<forall>x\<in>set (map fst (add_to_group k r gs)). k' < x"
        using 2(2) \<open>k' < k\<close> keys_add[of k r gs] by auto
      ultimately show ?thesis using False nl by simp
    qed
  qed
qed

lemma keys_fold:
  "fst ` set (fold (\<lambda>r. add_to_group (k r) r) f gs) = k ` set f \<union> fst ` set gs"
  by (induction f arbitrary: gs) (auto simp: keys_add)

lemma sorted_fold:
  "sorted_wrt (<) (map fst gs) \<Longrightarrow> sorted_wrt (<) (map fst (fold (\<lambda>r. add_to_group (k r) r) f gs))"
  by (induction f arbitrary: gs) (auto simp: sorted_add)

lemma keys_groups: "fst ` set (groups k f) = k ` set f"
  by (simp add: groups_def keys_fold)

lemma sorted_groups: "sorted_wrt (<) (map fst (groups k f))"
  by (simp add: groups_def sorted_fold)

lemma distinct_groups: "distinct (map fst (groups k f))"
  using sorted_groups[of k f] strict_sorted_iff by blast


text \<open>The rows of a group.\<close>

lemma map_of_add:
  "sorted_wrt (<) (map fst gs) \<Longrightarrow>
   map_of (add_to_group k r gs) x =
     (if x = k then Some (case map_of gs k of None \<Rightarrow> [r] | Some g \<Rightarrow> g @ [r])
      else map_of gs x)"
proof (induction k r gs rule: add_to_group.induct)
  case (1 k r)
  then show ?case by simp
next
  case (2 k r k' g gs)
  show ?case
  proof (cases "k = k'")
    case True
    then show ?thesis by auto
  next
    case False
    show ?thesis
    proof (cases "k < k'")
      case True
      have "k \<notin> fst ` set gs" using 2(2) True by force
      then have "map_of gs k = None" by (simp add: map_of_eq_None_iff)
      with True False show ?thesis by auto
    next
      case nl: False
      have "map_of (add_to_group k r gs) x =
             (if x = k then Some (case map_of gs k of None \<Rightarrow> [r] | Some g \<Rightarrow> g @ [r])
              else map_of gs x)"
        using 2 False nl by simp
      with False nl show ?thesis by auto
    qed
  qed
qed

lemma map_of_fold:
  "sorted_wrt (<) (map fst gs) \<Longrightarrow>
   map_of (fold (\<lambda>r. add_to_group (k r) r) f gs) x =
     (case map_of gs x of
        None \<Rightarrow> (if x \<in> k ` set f then Some (filter (\<lambda>r. k r = x) f) else None)
      | Some g \<Rightarrow> Some (g @ filter (\<lambda>r. k r = x) f))"
proof (induction f arbitrary: gs)
  case Nil
  then show ?case by (simp split: option.splits)
next
  case (Cons r f)
  have s: "sorted_wrt (<) (map fst (add_to_group (k r) r gs))"
    using Cons.prems by (rule sorted_add)
  show ?case
    using Cons.IH[OF s] Cons.prems
    by (auto simp: map_of_add split: option.splits)
qed

lemma groups_rows:
  "(x, g) \<in> set (groups k f) \<Longrightarrow> g = filter (\<lambda>r. k r = x) f \<and> x \<in> k ` set f"
proof -
  assume a: "(x, g) \<in> set (groups k f)"
  have "map_of (groups k f) x = Some g"
    using a distinct_groups[of k f] by simp
  moreover have "map_of (groups k f) x =
      (if x \<in> k ` set f then Some (filter (\<lambda>r. k r = x) f) else None)"
    using map_of_fold[of "[]" k f x] by (simp add: groups_def)
  ultimately show ?thesis by (auto split: if_splits)
qed

lemma stage_filter: "stage col sel f = filter (\<lambda>r. sel = ''All'' \<or> col r = sel) f"
  by (simp add: stage_def)

lemma filtered_eq:
  "filtered ui loaded = filter (\<lambda>r. \<forall>p\<in>set (predicates ui). p r) loaded"
  unfolding sidebar_df narrowed_def stage_filter predicates_def
  by (auto intro: filter_cong)

lemma foldl_filter: "foldl (\<lambda>d p. filter p d) d ps = filter (\<lambda>r. \<forall>p\<in>set ps. p r) d"
  by (induction ps arbitrary: d) (auto intro: filter_cong)

lemma options_eq: "options col f = ''All'' # sorted_list_of_set (col ` set f)"
  by (simp add: options_def sort_unique)

lemma options_two: "f \<noteq> [] \<Longrightarrow> 2 \<le> length (options col f)"
proof -
  assume "f \<noteq> []"
  then have "col ` set f \<noteq> {}" by simp
  then have "sorted_list_of_set (col ` set f) \<noteq> []"
    by (simp add: sorted_list_of_set_eq_Nil_iff del: image_is_empty)
  then show ?thesis by (cases "sorted_list_of_set (col ` set f)") (auto simp: options_eq)
qed

text \<open>
  Claim C2. For every table and every selection, the frame left after line 99 is a
  subsequence of the loaded rows, and each of its rows agrees with every selector that is
  not \<^verbatim>\<open>All\<close> and has its Order Date between the two bounds, both included.
\<close>

theorem filters_subset_and_satisfy:
  "subseq (filtered ui loaded) loaded \<and>
   (\<forall>r \<in> set (filtered ui loaded).
      (selected_region ui \<noteq> ''All'' \<longrightarrow> Region r = selected_region ui) \<and>
      (selected_state ui \<noteq> ''All'' \<longrightarrow> State r = selected_state ui) \<and>
      (selected_category ui \<noteq> ''All'' \<longrightarrow> Category r = selected_category ui) \<and>
      (selected_subcat ui \<noteq> ''All'' \<longrightarrow> Sub_Category r = selected_subcat ui) \<and>
      (selected_segment ui \<noteq> ''All'' \<longrightarrow> Segment r = selected_segment ui) \<and>
      from_date ui \<le> Order_Date r \<and> Order_Date r \<le> to_date ui)"
proof
  show "subseq (filtered ui loaded) loaded"
    unfolding filtered_eq by simp
next
  show "\<forall>r \<in> set (filtered ui loaded).
      (selected_region ui \<noteq> ''All'' \<longrightarrow> Region r = selected_region ui) \<and>
      (selected_state ui \<noteq> ''All'' \<longrightarrow> State r = selected_state ui) \<and>
      (selected_category ui \<noteq> ''All'' \<longrightarrow> Category r = selected_category ui) \<and>
      (selected_subcat ui \<noteq> ''All'' \<longrightarrow> Sub_Category r = selected_subcat ui) \<and>
      (selected_segment ui \<noteq> ''All'' \<longrightarrow> Segment r = selected_segment ui) \<and>
      from_date ui \<le> Order_Date r \<and> Order_Date r \<le> to_date ui"
    unfolding filtered_eq by (auto simp: predicates_def in_range_def)
qed

lemma filtered_east: "filtered pick_east table2 = [table2 ! 0]"
  by (simp add: filtered_def sidebar_def narrow_def copy_def alloc_def Let_def table2_def
      loaded_row_def pick_east_def pick_all_def)

theorem filters_subset_and_satisfy_witness:
  "filtered pick_east table2 = [table2 ! 0]
   \<and> selected_region pick_east \<noteq> ''All''
   \<and> subseq (filtered pick_east table2) table2
   \<and> list_all (\<lambda>r. Region r = ''East'' \<and> (2016, 1, 1) \<le> Order_Date r
                    \<and> Order_Date r \<le> (2017, 12, 31)) (filtered pick_east table2)"
proof -
  have s: "selected_region pick_east = ''East''" "from_date pick_east = (2016, 1, 1)"
    "to_date pick_east = (2017, 12, 31)"
    by (simp_all add: pick_east_def pick_all_def)
  from filters_subset_and_satisfy[of pick_east table2]
  have a: "subseq (filtered pick_east table2) table2"
    and b: "\<forall>r \<in> set (filtered pick_east table2). Region r = ''East''
              \<and> (2016, 1, 1) \<le> Order_Date r \<and> Order_Date r \<le> (2017, 12, 31)"
    using s by auto
  show ?thesis using a b s filtered_east by (simp add: list_all_iff)
qed

text \<open>
  Claim C6. In the order Region, State, Category, Sub-Category, Segment, the options of a
  selector are \<^verbatim>\<open>All\<close> followed by the sorted distinct values of its column in the rows that
  the earlier selectors keep. Every option list is non-empty, and it offers a value besides
  \<^verbatim>\<open>All\<close> whenever the earlier selectors keep a row.
\<close>

theorem cascading_options:
  fixes ui loaded
  defines "sb \<equiv> sidebar ui [loaded] 0"
    and "d1 \<equiv> stage Region (selected_region ui) loaded"
  defines "d2 \<equiv> stage State (selected_state ui) d1"
  defines "d3 \<equiv> stage Category (selected_category ui) d2"
  defines "d4 \<equiv> stage Sub_Category (selected_subcat ui) d3"
  shows "region_options sb = ''All'' # sorted_list_of_set (Region ` set loaded)
       \<and> state_options sb = ''All'' # sorted_list_of_set (State ` set d1)
       \<and> category_options sb = ''All'' # sorted_list_of_set (Category ` set d2)
       \<and> subcat_options sb = ''All'' # sorted_list_of_set (Sub_Category ` set d3)
       \<and> segment_options sb = ''All'' # sorted_list_of_set (Segment ` set d4)
       \<and> (loaded \<noteq> [] \<longrightarrow> 2 \<le> length (region_options sb))
       \<and> (d1 \<noteq> [] \<longrightarrow> 2 \<le> length (state_options sb))
       \<and> (d2 \<noteq> [] \<longrightarrow> 2 \<le> length (category_options sb))
       \<and> (d3 \<noteq> [] \<longrightarrow> 2 \<le> length (subcat_options sb))
       \<and> (d4 \<noteq> [] \<longrightarrow> 2 \<le> length (segment_options sb))"
  unfolding sb_def d1_def d2_def d3_def d4_def sidebar_options
  by (simp add: options_two) (simp add: options_eq)

lemma table2_east_options:
  "region_options (sidebar pick_east [table2] 0) = [''All'', ''East'', ''West'']"
  "state_options (sidebar pick_east [table2] 0) = [''All'', ''New York'']"
  by (simp_all add: sidebar_def narrow_def copy_def alloc_def Let_def table2_def
      loaded_row_def pick_east_def pick_all_def options_def unique_def)

theorem cascading_options_witness:
  "region_options (sidebar pick_east [table2] 0) = [''All'', ''East'', ''West'']
   \<and> sorted_list_of_set (Region ` set table2) = [''East'', ''West'']
   \<and> state_options (sidebar pick_east [table2] 0) = [''All'', ''New York'']
   \<and> sorted_list_of_set (State ` set (stage Region ''East'' table2)) = [''New York'']
   \<and> table2 \<noteq> [] \<and> stage Region ''East'' table2 \<noteq> []
   \<and> 2 \<le> length (region_options (sidebar pick_east [table2] 0))
   \<and> 2 \<le> length (state_options (sidebar pick_east [table2] 0))"
proof -
  have s: "selected_region pick_east = ''East''"
    by (simp add: pick_east_def pick_all_def)
  have n: "table2 \<noteq> []" "stage Region ''East'' table2 \<noteq> []"
    by (simp_all add: table2_def stage_def loaded_row_def)
  note c = cascading_options[of pick_east table2, unfolded s]
  have a: "region_options (sidebar pick_east [table2] 0)
             = ''All'' # sorted_list_of_set (Region ` set table2)"
    and b: "state_options (sidebar pick_east [table2] 0)
             = ''All'' # sorted_list_of_set (State ` set (stage Region ''East'' table2))"
    and l1: "table2 \<noteq> [] \<longrightarrow> 2 \<le> length (region_options (sidebar pick_east [table2] 0))"
    and l2: "stage Region ''East'' table2 \<noteq> []
             \<longrightarrow> 2 \<le> length (state_options (sidebar pick_east [table2] 0))"
    using c by blast+
  have "sorted_list_of_set (Region ` set table2) = [''East'', ''West'']"
    using a table2_east_options(1) by (simp only: list.inject)
  moreover have "sorted_list_of_set (State ` set (stage Region ''East'' table2)) = [''New York'']"
    using b table2_east_options(2) by (simp only: list.inject)
  ultimately show ?thesis
    using table2_east_options n l1 l2 by blast
qed

text \<open>
  Claim C7. The six predicates of a selection, applied one after another in any order,
  keep the rows that the script keeps with its fixed order.
\<close>

theorem filter_order_independent:
  assumes "mset ps = mset (predicates ui)"
  shows "foldl (\<lambda>d p. filter p d) loaded ps = filtered ui loaded"
proof -
  have "set ps = set (predicates ui)"
    using assms by (metis set_mset_mset)
  then show ?thesis
    by (simp add: foldl_filter filtered_eq)
qed

theorem filter_order_independent_witness:
  "mset (rev (predicates pick_east)) = mset (predicates pick_east)
   \<and> foldl (\<lambda>d p. filter p d) table2 (rev (predicates pick_east)) = [table2 ! 0]
   \<and> filtered pick_east table2 = [table2 ! 0]"
proof -
  have m: "mset (rev (predicates pick_east)) = mset (predicates pick_east)"
    by simp
  show ?thesis
    using filter_order_independent[OF m, of table2] filtered_east m by simp
qed

lemma assign_nth: "a < length s \<Longrightarrow> assign s a w ! a = map w (s ! a)"
  by (simp add: assign_def)

lemma assign_length: "length (assign s a w) = length s"
  by (simp add: assign_def)

lemma assign_other: "i \<noteq> a \<Longrightarrow> assign s a w ! i = s ! i"
  by (simp add: assign_def)

lemma groups_rows_subset: "(x, g) \<in> set (groups k f) \<Longrightarrow> set g \<subseteq> set f"
  using groups_rows[of x g k f] by auto

lemma col_values_total:
  "(\<And>r. r \<in> set g \<Longrightarrow> c r = Some (m r)) \<Longrightarrow> col_values c g = Inr (map m g)"
  by (induction g) auto

lemma agg_sum_margin_total:
  "(\<And>k g r. (k, g) \<in> set gs \<Longrightarrow> r \<in> set g
      \<Longrightarrow> Margin_Rate r = Some (Profit r / replace_0_1 (Sales r))) \<Longrightarrow>
   agg_sum_margin gs = Inr (map (\<lambda>(k, g). (k, summed_margins g)) gs)"
proof (induction gs)
  case Nil
  then show ?case by simp
next
  case (Cons a gs)
  obtain k g where a: "a = (k, g)" by (cases a)
  have c: "col_values Margin_Rate g = Inr (map (\<lambda>r. Profit r / replace_0_1 (Sales r)) g)"
    by (rule col_values_total) (use Cons.prems a in auto)
  have "agg_sum_margin gs = Inr (map (\<lambda>(k, g). (k, summed_margins g)) gs)"
    by (rule Cons.IH) (use Cons.prems in auto)
  with a c show ?case by (simp add: summed_margins_def)
qed

lemma charts_explicit:
  assumes "df < length s"
  shows "charts sv lk by s df = Inr (s[df := frame5 lk (s ! df)], views_of sv lk by (s ! df))"
proof -
  have g1: "\<And>f. groupby (\<lambda>r. Some (Order_Date r)) f = Inr (groups Order_Date f)"
    by (rule groupby_total) simp
  have g2: "\<And>f. groupby (\<lambda>r. Some (Product_Name r)) f = Inr (groups Product_Name f)"
    by (rule groupby_total) simp
  have g3: "\<And>f. groupby (\<lambda>r. map_option (\<lambda>y. (y, Segment r)) (Year r)) (map with_Year f)
      = Inr (groups (\<lambda>r. (year_of (Order_Date r), Segment r)) (map with_Year f))"
    by (rule groupby_total) (auto simp: with_Year_def)
  have g4: "\<And>f. groupby (\<lambda>r. Some (State r)) f = Inr (groups State f)"
    by (rule groupby_total) simp
  have g5: "\<And>f. groupby Quarter (map with_Quarter f)
      = Inr (groups (\<lambda>r. quarter_label (Order_Date r)) (map with_Quarter f))"
    by (rule groupby_total) (auto simp: with_Quarter_def)
  have g6: "\<And>f. groupby (\<lambda>r. map_option (\<lambda>q. (q, Category r)) (Quarter r)) (map with_Quarter f)
      = Inr (groups (\<lambda>r. (quarter_label (Order_Date r), Category r)) (map with_Quarter f))"
    by (rule groupby_total) (auto simp: with_Quarter_def)
  have g7: "\<And>f. groupby (\<lambda>r. map_option (\<lambda>q. (Category r, q)) (Quarter r))
        (map with_Margin_Rate (map with_Quarter f))
      = Inr (groups (\<lambda>r. (Category r, quarter_label (Order_Date r)))
          (map with_Margin_Rate (map with_Quarter f)))"
    by (rule groupby_total) (auto simp: with_Quarter_def with_Margin_Rate_def)
  have a7: "\<And>(k :: row \<Rightarrow> string \<times> string) f. agg_sum_margin (groups k (map with_Margin_Rate f))
      = Inr (map (\<lambda>(k, g). (k, summed_margins g)) (groups k (map with_Margin_Rate f)))"
  proof (rule agg_sum_margin_total)
    fix k :: "row \<Rightarrow> string \<times> string" and f :: frame and x g r
    assume "(x, g) \<in> set (groups k (map with_Margin_Rate f))" "r \<in> set g"
    then have "r \<in> set (map with_Margin_Rate f)"
      using groups_rows_subset by blast
    then show "Margin_Rate r = Some (Profit r / replace_0_1 (Sales r))"
      by (auto simp: with_Margin_Rate_def)
  qed
  have upd: "assign (assign (assign (assign (assign s df with_Year) df (with_State lk)) df
      with_Order_Date) df with_Quarter) df with_Margin_Rate = s[df := frame5 lk (s ! df)]"
    using assms
    by (simp add: assign_def frame5_def frame4_def frame2_def frame1_def)
  show ?thesis
    unfolding charts_def Let_def upd views_of_def
    by (simp only: assign_nth assign_length assms g1 g2 g3 g4 g5 g6 g7 a7 bind_err_def
        sum.case frame1_def frame2_def frame4_def frame5_def nth_list_update_eq)
qed

lemma run_empty:
  assumes "filtered ui loaded = []"
  shows "run sv lk ui loaded =
     Inr \<lparr> heap = sb_heap (sidebar ui [loaded] 0), side = sidebar ui [loaded] 0,
           kpi_tiles = zero_kpis,
           messages = sb_messages (sidebar ui [loaded] 0)
             @ [Warning ''No data available for the selected filters and date range.''],
           chart_data = None \<rparr>"
  using assms by (simp add: run_def Let_def filtered_def kpi_calc_def zero_kpis_def)

lemma run_nonempty:
  assumes "filtered ui loaded \<noteq> []"
  shows "run sv lk ui loaded =
     Inr \<lparr> heap = (sb_heap (sidebar ui [loaded] 0))
                    [sb_df (sidebar ui [loaded] 0) := frame5 lk (filtered ui loaded)],
           side = sidebar ui [loaded] 0,
           kpi_tiles = kpi_calc (filtered ui loaded),
           messages = sb_messages (sidebar ui [loaded] 0),
           chart_data = Some (views_of sv lk (selected_kpi ui) (filtered ui loaded)) \<rparr>"
proof -
  have l: "sb_df (sidebar ui [loaded] 0) < length (sb_heap (sidebar ui [loaded] 0))"
    using sidebar_original by blast
  show ?thesis
    using assms
    by (simp add: run_def Let_def charts_explicit[OF l] bind_err_def filtered_def)
qed

text \<open>
  Claim C9. Whatever the selection, the sorting routine and the state table, the run ends
  without an error and the object the script loaded (\<^verbatim>\<open>df_original\<close>, at address 0) holds
  the loaded rows, unchanged: after the sidebar part and after the charts part, whose
  column assignments go to another object.
\<close>

theorem loaded_dataset_unchanged:
  "sb_heap (sidebar ui [loaded] 0) ! 0 = loaded
   \<and> sb_df (sidebar ui [loaded] 0) \<noteq> 0
   \<and> (\<exists>d. run sv lk ui loaded = Inr d \<and> heap d ! 0 = loaded)"
proof (cases "filtered ui loaded = []")
  case True
  then show ?thesis
    using sidebar_original[of ui loaded] by (simp add: run_empty)
next
  case False
  then show ?thesis
    using sidebar_original[of ui loaded] by (simp add: run_nonempty)
qed


lemma ties_reversed_sorts: "sorts_descending ties_reversed"
proof -
  have "sorted_wrt (\<lambda>a b. metric c (snd b) \<le> metric c (snd a))
          (rev (sort_key (\<lambda>x. metric c (snd x)) v))" for c v
  proof -
    have "sorted (map (\<lambda>x. metric c (snd x)) (sort_key (\<lambda>x. metric c (snd x)) v))"
      by (rule sorted_sort_key)
    then have "sorted_wrt (\<lambda>a b. metric c (snd a) \<le> metric c (snd b))
                 (sort_key (\<lambda>x. metric c (snd x)) v)"
      by (simp add: sorted_map)
    then show ?thesis
      by (simp add: sorted_wrt_rev)
  qed
  moreover have "mset (rev (sort_key (\<lambda>x. metric c (snd x)) v)) = mset v" for c v
    by simp
  ultimately show ?thesis
    unfolding sorts_descending_def ties_reversed_def by blast
qed





text \<open>
  Claim C8. With the from-date after the to-date the sidebar reports its error message and
  the script goes on: the date filter runs with the two bounds as given, no row passes it,
  and the run ends without an error, with the message among its messages.
\<close>

theorem inverted_date_range:
  assumes "to_date ui < from_date ui"
  shows "sb_messages (sidebar ui [loaded] 0)
           = [Sidebar_Error ''From Date must be earlier than To Date.'']
       \<and> filtered ui loaded
           = filter (\<lambda>r. from_date ui \<le> Order_Date r \<and> Order_Date r \<le> to_date ui)
               (narrowed ui loaded)
       \<and> filtered ui loaded = []
       \<and> (\<exists>d. run sv lk ui loaded = Inr d
              \<and> Sidebar_Error ''From Date must be earlier than To Date.'' \<in> set (messages d)
              \<and> kpi_tiles d = zero_kpis \<and> chart_data d = None)"
proof -
  have e: "filtered ui loaded = []"
    using assms by (auto simp: sidebar_df in_range_def filter_empty_conv)
  have m: "sb_messages (sidebar ui [loaded] 0)
           = [Sidebar_Error ''From Date must be earlier than To Date.'']"
    using assms by (simp add: sidebar_messages)
  have f: "filtered ui loaded
           = filter (\<lambda>r. from_date ui \<le> Order_Date r \<and> Order_Date r \<le> to_date ui)
               (narrowed ui loaded)"
    by (simp add: sidebar_df in_range_def)
  show ?thesis
    using e m f by (simp add: run_empty)
qed

theorem inverted_date_range_witness:
  "to_date pick_inverted < from_date pick_inverted
   \<and> sb_messages (sidebar pick_inverted [table2] 0)
        = [Sidebar_Error ''From Date must be earlier than To Date.'']
   \<and> filtered pick_inverted table2 = []
   \<and> (\<exists>d. run ties_reversed two_states pick_inverted table2 = Inr d
          \<and> Sidebar_Error ''From Date must be earlier than To Date.'' \<in> set (messages d))"
proof -
  have h: "to_date pick_inverted < from_date pick_inverted"
    by (simp add: pick_inverted_def pick_all_def)
  show ?thesis
    using h inverted_date_range[OF h, of table2 ties_reversed two_states] by blast
qed




lemma add_margin_policy:
  "(k, m) \<in> set (add_margin v) \<Longrightarrow> m_Margin_Rate m = spec_marginRate (m_Sales m) (m_Profit m)"
  by (auto simp: add_margin_def spec_marginRate_def replace_0_1_def)

lemma add_margin_policy_snd:
  "m \<in> snd ` set (add_margin v) \<Longrightarrow> m_Margin_Rate m = spec_marginRate (m_Sales m) (m_Profit m)"
  using add_margin_policy by fastforce

lemma kpi_margin:
  "margin_rate (kpi_calc f) =
     (if total_sales (kpi_calc f) \<noteq> 0
      then spec_marginRate (total_sales (kpi_calc f)) (total_profit (kpi_calc f)) else 0)"
  by (simp add: kpi_calc_def Let_def spec_marginRate_def)

lemma charts_views:
  assumes "df < length s" "charts sv lk c s df = Inr (s', v)"
  shows "v = views_of sv lk c (s ! df)" "s' = s[df := frame5 lk (s ! df)]"
  using assms by (simp_all add: charts_explicit)

lemma views_of_fields:
  "daily_grouped (views_of sv lk c f) = add_margin (agg_sum (groups Order_Date f))"
  "product_grouped (views_of sv lk c f) = sv c (add_margin (agg_sum (groups Product_Name f)))"
  "top_10 (views_of sv lk c f) = take 10 (sv c (add_margin (agg_sum (groups Product_Name f))))"
  "year_segment_grouped (views_of sv lk c f) = add_margin (agg_sum
      (groups (\<lambda>r. (year_of (Order_Date r), Segment r)) (frame1 f)))"
  "state_grouped (views_of sv lk c f) = add_margin (agg_sum (groups State (frame2 lk f)))"
  "quarterly_grouped (views_of sv lk c f) = add_margin (agg_sum
      (groups (\<lambda>r. quarter_label (Order_Date r)) (frame4 lk f)))"
  "quarterly_data (views_of sv lk c f) = add_margin (agg_sum
      (groups (\<lambda>r. (quarter_label (Order_Date r), Category r)) (frame4 lk f)))"
  "df_grouped_new (views_of sv lk c f) = map (\<lambda>(k, g). (k, summed_margins g))
      (groups (\<lambda>r. (Category r, quarter_label (Order_Date r))) (frame5 lk f))"
  by (simp_all add: views_of_def)

text \<open>
  Claim C1, as amended. The function of the spec returns \<open>profit\<close> when \<open>sales\<close> is 0 and
  \<open>profit / sales\<close> otherwise. Every row of the grouped views that the script derives with
  \<^verbatim>\<open>v["Profit"] / v["Sales"].replace(0, 1)\<close> has this function of its summed Profit and
  Sales as its Margin Rate. The Margin Rate tile is this function of the two totals when
  the total Sales is not 0, and it is 0 when the total Sales is 0.
\<close>

theorem margin_rate_policy:
  assumes "df < length s" "charts sv lk c s df = Inr (s', v)"
  shows "spec_marginRate sales profit = (if sales = 0 then profit else profit / sales)
       \<and> (\<forall>m \<in> snd ` set (daily_grouped v) \<union> snd ` set (year_segment_grouped v)
              \<union> snd ` set (state_grouped v) \<union> snd ` set (quarterly_grouped v)
              \<union> snd ` set (quarterly_data v).
            m_Margin_Rate m = spec_marginRate (m_Sales m) (m_Profit m))
       \<and> (sorts_descending sv \<longrightarrow>
            (\<forall>m \<in> snd ` set (product_grouped v).
               m_Margin_Rate m = spec_marginRate (m_Sales m) (m_Profit m)))
       \<and> margin_rate (kpi_calc f) =
            (if total_sales (kpi_calc f) \<noteq> 0
             then spec_marginRate (total_sales (kpi_calc f)) (total_profit (kpi_calc f))
             else 0)"
proof -
  have v: "v = views_of sv lk c (s ! df)"
    using assms by (rule charts_views)
  have a: "spec_marginRate sales profit = (if sales = 0 then profit else profit / sales)"
    by (simp add: spec_marginRate_def)
  have b1: "\<forall>m \<in> snd ` set (daily_grouped v).
            m_Margin_Rate m = spec_marginRate (m_Sales m) (m_Profit m)"
    unfolding v views_of_fields using add_margin_policy_snd by blast
  have b2: "\<forall>m \<in> snd ` set (year_segment_grouped v).
            m_Margin_Rate m = spec_marginRate (m_Sales m) (m_Profit m)"
    unfolding v views_of_fields using add_margin_policy_snd by blast
  have b3: "\<forall>m \<in> snd ` set (state_grouped v).
            m_Margin_Rate m = spec_marginRate (m_Sales m) (m_Profit m)"
    unfolding v views_of_fields using add_margin_policy_snd by blast
  have b4: "\<forall>m \<in> snd ` set (quarterly_grouped v).
            m_Margin_Rate m = spec_marginRate (m_Sales m) (m_Profit m)"
    unfolding v views_of_fields using add_margin_policy_snd by blast
  have b5: "\<forall>m \<in> snd ` set (quarterly_data v).
            m_Margin_Rate m = spec_marginRate (m_Sales m) (m_Profit m)"
    unfolding v views_of_fields using add_margin_policy_snd by blast
  have b: "\<forall>m \<in> snd ` set (daily_grouped v) \<union> snd ` set (year_segment_grouped v)
              \<union> snd ` set (state_grouped v) \<union> snd ` set (quarterly_grouped v)
              \<union> snd ` set (quarterly_data v).
            m_Margin_Rate m = spec_marginRate (m_Sales m) (m_Profit m)"
    using b1 b2 b3 b4 b5 by (simp only: ball_Un)
  have p: "\<forall>m \<in> snd ` set (product_grouped v).
               m_Margin_Rate m = spec_marginRate (m_Sales m) (m_Profit m)"
    if "sorts_descending sv"
  proof -
    have "mset (sv c (add_margin (agg_sum (groups Product_Name (s ! df)))))
            = mset (add_margin (agg_sum (groups Product_Name (s ! df))))"
      using that unfolding sorts_descending_def by blast
    then have "set (product_grouped v) = set (add_margin (agg_sum (groups Product_Name (s ! df))))"
      unfolding v views_of_fields by (rule mset_eq_setD)
    then show ?thesis
      using add_margin_policy_snd by metis
  qed
  have k: "margin_rate (kpi_calc f) =
            (if total_sales (kpi_calc f) \<noteq> 0
             then spec_marginRate (total_sales (kpi_calc f)) (total_profit (kpi_calc f))
             else 0)"
    by (rule kpi_margin)
  show ?thesis
    using a b p k by (intro conjI impI) assumption+
qed

lemma table2_daily:
  "daily_grouped (views_of ties_reversed two_states KSales table2) =
     [((2016, 1, 5), \<lparr> m_Sales = 100, m_Quantity = 2, m_Profit = 20, m_Margin_Rate = 1 / 5 \<rparr>),
      ((2016, 2, 9), \<lparr> m_Sales = 50, m_Quantity = 1, m_Profit = - 10,
                       m_Margin_Rate = - (1 / 5) \<rparr>)]"
  by (simp add: views_of_def groups_def agg_sum_def add_margin_def replace_0_1_def
      table2_def loaded_row_def)

theorem margin_rate_policy_witness:
  "0 < length [table2]
   \<and> charts ties_reversed two_states KSales [table2] 0
       = Inr ([frame5 two_states table2], views_of ties_reversed two_states KSales table2)
   \<and> sorts_descending ties_reversed
   \<and> hd (daily_grouped (views_of ties_reversed two_states KSales table2))
       = ((2016, 1, 5), \<lparr> m_Sales = 100, m_Quantity = 2, m_Profit = 20, m_Margin_Rate = 1 / 5 \<rparr>)
   \<and> spec_marginRate 100 20 = 1 / 5
   \<and> margin_rate (kpi_calc table2) = spec_marginRate 150 10"
proof -
  have l: "0 < length [table2]" by simp
  have c: "charts ties_reversed two_states KSales [table2] 0
       = Inr ([frame5 two_states table2], views_of ties_reversed two_states KSales table2)"
    by (simp add: charts_explicit)
  note t = margin_rate_policy[OF l c, of 100 20 table2]
  have k: "total_sales (kpi_calc table2) = 150" "total_profit (kpi_calc table2) = 10"
    by (simp_all add: kpi_calc_def table2_def loaded_row_def)
  have "spec_marginRate 100 20 = 1 / 5"
    using t by simp
  moreover have "margin_rate (kpi_calc table2) = spec_marginRate 150 10"
    using t k by simp
  ultimately show ?thesis
    using l c ties_reversed_sorts table2_daily by simp
qed

text \<open>
  Claim C1 as the spec states it fails on the tile: of a table with no Sales and a Profit
  of 5 the Margin Rate tile is 0, and the function of the spec gives 5.
\<close>

theorem kpi_margin_counterexample:
  "total_sales (kpi_calc (filtered pick_all free_sample)) = 0
   \<and> total_profit (kpi_calc (filtered pick_all free_sample)) = 5
   \<and> margin_rate (kpi_calc (filtered pick_all free_sample)) = 0
   \<and> spec_marginRate (total_sales (kpi_calc (filtered pick_all free_sample)))
        (total_profit (kpi_calc (filtered pick_all free_sample))) = 5
   \<and> margin_rate (kpi_calc (filtered pick_all free_sample))
       \<noteq> spec_marginRate (total_sales (kpi_calc (filtered pick_all free_sample)))
            (total_profit (kpi_calc (filtered pick_all free_sample)))"
proof -
  have f: "filtered pick_all free_sample = free_sample"
    by (simp add: filtered_def sidebar_def narrow_def copy_def alloc_def Let_def
        free_sample_def loaded_row_def pick_all_def)
  show ?thesis
    unfolding f
    by (simp add: kpi_calc_def free_sample_def loaded_row_def spec_marginRate_def)
qed








lemma written_fields:
  "Category (written lk r) = Category r" "Order_Date (written lk r) = Order_Date r"
  "Sales (written lk r) = Sales r" "Profit (written lk r) = Profit r"
  "Quantity (written lk r) = Quantity r"
  by (simp_all add: written_def with_Margin_Rate_def with_Quarter_def with_Order_Date_def
      with_State_def with_Year_def)

lemma frame5_written: "frame5 lk f = map (written lk) f"
  by (simp add: frame5_def frame4_def frame2_def frame1_def written_def)

lemma summed_margins_written: "summed_margins (map (written lk) g) = summed_margins g"
  by (simp add: summed_margins_def comp_def written_fields)

lemma grouped_new_eq:
  "df_grouped_new (views_of sv lk c f) =
     map (\<lambda>(k, g). (k, summed_margins g)) (groups category_quarter (map (written lk) f))"
proof -
  have "category_quarter = (\<lambda>r. (Category r, quarter_label (Order_Date r)))"
    by (rule ext) (simp add: category_quarter_def)
  then show ?thesis
    by (simp add: views_of_fields frame5_written)
qed

lemma grouped_new_row:
  assumes "(k, m) \<in> set (df_grouped_new (views_of sv lk c f))"
  shows "m = summed_margins (filter (\<lambda>r. category_quarter r = k) f)"
proof -
  obtain g where g: "(k, g) \<in> set (groups category_quarter (map (written lk) f))"
    and m: "m = summed_margins g"
    using assms unfolding grouped_new_eq by auto
  have "g = filter (\<lambda>r. category_quarter r = k) (map (written lk) f)"
    using groups_rows[OF g] by simp
  also have "\<dots> = map (written lk) (filter (\<lambda>r. category_quarter r = k) f)"
    by (simp add: filter_map comp_def category_quarter_def written_fields)
  finally show ?thesis
    using m by (simp add: summed_margins_written)
qed

lemma grouped_new_keys:
  "fst ` set (df_grouped_new (views_of sv lk c f)) = category_quarter ` set f"
proof -
  have "fst ` set (df_grouped_new (views_of sv lk c f))
          = fst ` set (groups category_quarter (map (written lk) f))"
    unfolding grouped_new_eq by force
  also have "\<dots> = category_quarter ` set (map (written lk) f)"
    by (rule keys_groups)
  also have "\<dots> = category_quarter ` set f"
    by (simp add: image_image category_quarter_def written_fields)
  finally show ?thesis .
qed

lemma single_row_margin:
  "length g = 1 \<Longrightarrow>
     m_Margin_Rate (summed_margins g)
       = spec_marginRate (m_Sales (summed_margins g)) (m_Profit (summed_margins g))"
  by (cases g) (auto simp: summed_margins_def spec_marginRate_def replace_0_1_def)

lemma table2_quarters:
  "category_quarter (table2 ! 0) = (''Furniture'', ''2016Q1'')"
  "category_quarter (table2 ! 1) = (''Furniture'', ''2016Q1'')"
  "category_quarter (table2 ! Suc 0) = (''Furniture'', ''2016Q1'')"
  by (simp_all add: category_quarter_def table2_def loaded_row_def quarter_label_def
      str_nat.simps)

text \<open>
  Claim C10. The script also builds the view \<^verbatim>\<open>df_grouped_new\<close>, grouped by Category and
  Quarter, with one row for each pair that occurs in the frame. The Margin Rate of a row is
  the sum, over the rows of its group, of Profit divided by Sales with 0 replaced by 1;
  its Sales and Profit are the sums of the group. For a group of one row this is the
  margin rate of the summed Profit and Sales; for a group of more rows it is another
  computation: the two rows of the table of the spec's scenario form one group, whose
  margin rates sum to 0 while the summed Profit over the summed Sales is 1/15.
\<close>

theorem grouped_new_sums_row_margins:
  assumes "df < length s" "charts sv lk c s df = Inr (s', v)"
  shows "(\<forall>(k, m) \<in> set (df_grouped_new v).
            m_Margin_Rate m = sum_list (map (\<lambda>r. Profit r / replace_0_1 (Sales r))
                                 (filter (\<lambda>r. category_quarter r = k) (s ! df)))
          \<and> m_Sales m = sum_list (map Sales (filter (\<lambda>r. category_quarter r = k) (s ! df)))
          \<and> m_Profit m = sum_list (map Profit (filter (\<lambda>r. category_quarter r = k) (s ! df)))
          \<and> (length (filter (\<lambda>r. category_quarter r = k) (s ! df)) = 1
               \<longrightarrow> m_Margin_Rate m = spec_marginRate (m_Sales m) (m_Profit m)))
       \<and> fst ` set (df_grouped_new v) = category_quarter ` set (s ! df)
       \<and> (\<exists>s2 v2 m. charts sv lk c [table2] 0 = Inr (s2, v2)
            \<and> ((''Furniture'', ''2016Q1''), m) \<in> set (df_grouped_new v2)
            \<and> filter (\<lambda>r. category_quarter r = (''Furniture'', ''2016Q1'')) table2 = table2
            \<and> length table2 = 2
            \<and> m_Margin_Rate m = 0
            \<and> spec_marginRate (m_Sales m) (m_Profit m) = 1 / 15)"
proof -
  have v: "v = views_of sv lk c (s ! df)"
    using assms by (rule charts_views)
  have rows: "\<forall>(k, m) \<in> set (df_grouped_new v).
            m_Margin_Rate m = sum_list (map (\<lambda>r. Profit r / replace_0_1 (Sales r))
                                 (filter (\<lambda>r. category_quarter r = k) (s ! df)))
          \<and> m_Sales m = sum_list (map Sales (filter (\<lambda>r. category_quarter r = k) (s ! df)))
          \<and> m_Profit m = sum_list (map Profit (filter (\<lambda>r. category_quarter r = k) (s ! df)))
          \<and> (length (filter (\<lambda>r. category_quarter r = k) (s ! df)) = 1
               \<longrightarrow> m_Margin_Rate m = spec_marginRate (m_Sales m) (m_Profit m))"
  proof (clarify, intro conjI impI)
    fix k m
    assume "(k, m) \<in> set (df_grouped_new v)"
    then have m: "m = summed_margins (filter (\<lambda>r. category_quarter r = k) (s ! df))"
      unfolding v by (rule grouped_new_row)
    show "m_Margin_Rate m = sum_list (map (\<lambda>r. Profit r / replace_0_1 (Sales r))
                                 (filter (\<lambda>r. category_quarter r = k) (s ! df)))"
      and "m_Sales m = sum_list (map Sales (filter (\<lambda>r. category_quarter r = k) (s ! df)))"
      and "m_Profit m = sum_list (map Profit (filter (\<lambda>r. category_quarter r = k) (s ! df)))"
      unfolding m by (simp_all add: summed_margins_def)
    show "m_Margin_Rate m = spec_marginRate (m_Sales m) (m_Profit m)"
      if "length (filter (\<lambda>r. category_quarter r = k) (s ! df)) = 1"
      unfolding m using that by (rule single_row_margin)
  qed
  have keys: "fst ` set (df_grouped_new v) = category_quarter ` set (s ! df)"
    unfolding v by (rule grouped_new_keys)
  have ex: "\<exists>s2 v2 m. charts sv lk c [table2] 0 = Inr (s2, v2)
            \<and> ((''Furniture'', ''2016Q1''), m) \<in> set (df_grouped_new v2)
            \<and> filter (\<lambda>r. category_quarter r = (''Furniture'', ''2016Q1'')) table2 = table2
            \<and> length table2 = 2
            \<and> m_Margin_Rate m = 0
            \<and> spec_marginRate (m_Sales m) (m_Profit m) = 1 / 15"
  proof -
    let ?v2 = "views_of sv lk c table2"
    have t2: "table2 = [table2 ! 0, table2 ! 1]"
      by (simp add: table2_def)
    have c2: "charts sv lk c [table2] 0 = Inr ([frame5 lk table2], ?v2)"
      by (simp add: charts_explicit)
    have "(''Furniture'', ''2016Q1'') \<in> category_quarter ` set table2"
      using table2_quarters(1) t2 by (metis image_eqI list.set_intros(1))
    then have "(''Furniture'', ''2016Q1'') \<in> fst ` set (df_grouped_new ?v2)"
      by (simp only: grouped_new_keys)
    then obtain m where m: "((''Furniture'', ''2016Q1''), m) \<in> set (df_grouped_new ?v2)"
      by force
    have f: "filter (\<lambda>r. category_quarter r = (''Furniture'', ''2016Q1'')) table2 = table2"
      by (subst (1 2) t2) (simp add: table2_quarters)
    have "m = summed_margins table2"
      using grouped_new_row[OF m] f by simp
    then have "m_Margin_Rate m = 0" "spec_marginRate (m_Sales m) (m_Profit m) = 1 / 15"
      by (simp_all add: summed_margins_def table2_def loaded_row_def replace_0_1_def
          spec_marginRate_def)
    moreover have "length table2 = 2"
      by (simp add: table2_def)
    ultimately show ?thesis
      using c2 m f by blast
  qed
  show ?thesis
    using rows keys ex by (intro conjI) assumption+
qed

theorem grouped_new_sums_row_margins_witness:
  "0 < length [table2]
   \<and> charts ties_reversed two_states KSales [table2] 0
       = Inr ([frame5 two_states table2], views_of ties_reversed two_states KSales table2)
   \<and> fst ` set (df_grouped_new (views_of ties_reversed two_states KSales table2))
       = {(''Furniture'', ''2016Q1'')}
   \<and> (\<exists>m. ((''Furniture'', ''2016Q1''), m)
             \<in> set (df_grouped_new (views_of ties_reversed two_states KSales table2))
          \<and> m_Margin_Rate m = 0 \<and> spec_marginRate (m_Sales m) (m_Profit m) = 1 / 15)"
proof -
  have l: "0 < length [table2]" by simp
  have c: "charts ties_reversed two_states KSales [table2] 0
       = Inr ([frame5 two_states table2], views_of ties_reversed two_states KSales table2)"
    by (simp add: charts_explicit)
  note t = grouped_new_sums_row_margins[OF l c]
  have t2: "table2 = [table2 ! 0, table2 ! 1]"
    by (simp add: table2_def)
  have "category_quarter ` set table2 = {(''Furniture'', ''2016Q1'')}"
    by (subst t2) (simp add: table2_quarters)
  then have k: "fst ` set (df_grouped_new (views_of ties_reversed two_states KSales table2))
       = {(''Furniture'', ''2016Q1'')}"
    using t by simp
  have "\<exists>s2 v2 m. charts ties_reversed two_states KSales [table2] 0 = Inr (s2, v2)
            \<and> ((''Furniture'', ''2016Q1''), m) \<in> set (df_grouped_new v2)
            \<and> m_Margin_Rate m = 0
            \<and> spec_marginRate (m_Sales m) (m_Profit m) = 1 / 15"
    using t by blast
  then have "\<exists>m. ((''Furniture'', ''2016Q1''), m)
             \<in> set (df_grouped_new (views_of ties_reversed two_states KSales table2))
          \<and> m_Margin_Rate m = 0 \<and> spec_marginRate (m_Sales m) (m_Profit m) = 1 / 15"
    unfolding c by blast
  then show ?thesis
    using l c k by blast
qed

end
